theory Spec2Isabelle
  imports Complex_Main
begin

section \<open>Tables of the dataframe engine\<close>

text \<open>
  The notebook \<^verbatim>\<open>1_data_ingestion.ipynb\<close> holds no table type of its own: every table is a
  Spark dataframe, a schema (column names with a column type each) over rows of nullable
  cells. A double is either NaN or a number; no arithmetic is ever done on one here, so the
  rounding of doubles is not modelled.
\<close>

datatype double = NaN | D real

datatype cell = Null | IntV int | DblV double | TsV int | BoolV bool | StrV string

datatype dtype =
  NullType | IntegerType | LongType | DoubleType | TimestampType | BooleanType | StringType

record dataframe =
  schema :: "(string \<times> dtype) list"
  rows :: "cell list list"

definition columns :: "dataframe \<Rightarrow> string list" where
  "columns df = map fst (schema df)"

definition count :: "dataframe \<Rightarrow> nat" where
  "count df = length (rows df)"

text \<open>
  Missing data, in the engine's terms (\<^verbatim>\<open>DataFrameNaFunctions\<close>), is a null in any column
  or a NaN in a double column.
\<close>

definition missing :: "cell \<Rightarrow> bool" where
  "missing c = (c = Null \<or> c = DblV NaN)"

section \<open>fillna\<close>

text \<open>
  \<^verbatim>\<open>DataFrame.fillna(value, subset)\<close> as the notebook calls it, with a Python int or a
  Python string for \<^verbatim>\<open>value\<close> and a list of column names for \<^verbatim>\<open>subset\<close>. A Python int is
  passed on as a double and fills the numeric columns, a string fills the string columns;
  a column of \<^verbatim>\<open>subset\<close> whose type does not match the value is ignored, and so is a name of
  \<^verbatim>\<open>subset\<close> that resolves to no column (Spark 2, which the notebook was written for). Names
  are resolved without regard to case, the engine's default. The fill value is cast to the
  column's type; in a double column a NaN is replaced like a null.

  The engine raises where it cannot resolve a name: for a column name with a dot in it,
  and, from Spark 2.4.5 on, for a name of \<^verbatim>\<open>subset\<close> that no column has. Tables with such
  names are outside this model, which fills what it can for them.
\<close>

datatype pyvalue = PyInt int | PyStr string

definition toLower :: "char \<Rightarrow> char" where
  "toLower c = (let n = (of_char c :: nat) in if 65 \<le> n \<and> n \<le> 90 then char_of (n + 32) else c)"

definition resolver :: "string \<Rightarrow> string \<Rightarrow> bool" where
  "resolver a b = (map toLower a = map toLower b)"

definition isNumeric :: "dtype \<Rightarrow> bool" where
  "isNumeric dt = (dt = IntegerType \<or> dt = LongType \<or> dt = DoubleType)"

fun typeMatches :: "pyvalue \<Rightarrow> dtype \<Rightarrow> bool" where
  "typeMatches (PyInt n) dt = isNumeric dt"
| "typeMatches (PyStr s) dt = (dt = StringType)"

fun fillCol :: "pyvalue \<Rightarrow> dtype \<Rightarrow> cell \<Rightarrow> cell" where
  "fillCol (PyInt n) DoubleType c = (if c = Null \<or> c = DblV NaN then DblV (D (of_int n)) else c)"
| "fillCol (PyInt n) dt c = (if c = Null then IntV n else c)"
| "fillCol (PyStr s) dt c = (if c = Null then StrV s else c)"

fun fillRow :: "pyvalue \<Rightarrow> string list \<Rightarrow> (string \<times> dtype) list \<Rightarrow> cell list \<Rightarrow> cell list" where
  "fillRow v cols (f # fs) (c # cs) =
     (if typeMatches v (snd f) \<and> list_ex (resolver (fst f)) cols then fillCol v (snd f) c else c)
       # fillRow v cols fs cs"
| "fillRow v cols fs cs = cs"

definition fillna :: "pyvalue \<Rightarrow> string list \<Rightarrow> dataframe \<Rightarrow> dataframe" where
  "fillna v cols df = df\<lparr>rows := map (fillRow v cols (schema df)) (rows df)\<rparr>"

section \<open>Handling of missing values (cell 16)\<close>

text \<open>
  \<^verbatim>\<open>
  telemetry_cols = telemetry.columns
  features_datetime = ['datetime']
  features_categorical = ['machineID']
  features_numeric = list(set(telemetry_cols) - set(features_datetime) - set(features_categorical))
  telemetry = telemetry.fillna(0, subset = features_numeric)
  telemetry = telemetry.fillna("Unknown", subset = features_categorical)
  \<close>
  The order in which Python lists a set is not fixed; \<^const>\<open>fillna\<close> only asks whether a name
  is in the subset, so the order chosen here makes no difference.
\<close>

definition features_datetime :: "string list" where
  "features_datetime = [''datetime'']"

definition features_categorical :: "string list" where
  "features_categorical = [''machineID'']"

definition features_numeric :: "dataframe \<Rightarrow> string list" where
  "features_numeric telemetry =
     remdups (filter (\<lambda>c. c \<notin> set features_datetime \<and> c \<notin> set features_categorical)
       (columns telemetry))"

definition handle_missing_values :: "dataframe \<Rightarrow> dataframe" where
  "handle_missing_values telemetry =
     fillna (PyStr ''Unknown'') features_categorical
       (fillna (PyInt 0) (features_numeric telemetry) telemetry)"

section \<open>The platform\<close>

text \<open>
  What the notebook takes from the machine it runs on: the parsers of the JVM that the CSV
  reader tries on a field (\<^verbatim>\<open>Integer.parseInt\<close>, \<^verbatim>\<open>Long.parseLong\<close>, \<^verbatim>\<open>Double.parseDouble\<close>,
  the timestamp parser, \<^verbatim>\<open>toBoolean\<close>); two points on which the versions of the reader
  differ (whether type inference widens the type found so far with the type of the next
  field, as Spark 3 does, and whether a record with a field that its column's parser rejects
  keeps its other cells, as in Spark 3, or becomes a row of nulls, as in Spark 2); and
  whether a write to a path fails (an I/O error of the store, which no input of the notebook
  decides).
\<close>

record platform =
  parseInt :: "string \<Rightarrow> int option"
  parseLong :: "string \<Rightarrow> int option"
  parseDouble :: "string \<Rightarrow> double option"
  parseTimestamp :: "string \<Rightarrow> int option"
  parseBoolean :: "string \<Rightarrow> bool option"
  widens_types :: bool
  keeps_partial_rows :: bool
  write_fails :: "string \<Rightarrow> bool"

section \<open>Reading a CSV file with header and inferSchema\<close>

text \<open>
  \<^verbatim>\<open>spark.read.format("csv").option("header", "true").option("inferSchema", "true").load(path)\<close>
  A CSV file is taken as already split into its header line and its records of fields.

  The column names are the header's (\<^verbatim>\<open>makeSafeHeader\<close>): an empty name becomes
  \<^verbatim>\<open>_c\<close> followed by the column's index, and a name that occurs more than once, case
  ignored, gets its index appended.

  The reader infers each column's type by running over the column's fields in the records
  that do not repeat the header line (\<^verbatim>\<open>CSVInferSchema.inferField\<close>): an empty field leaves
  the type as it is, any other field moves it down the chain integer, long, double,
  timestamp, boolean, string, and a column with no field at all ends as a string column. No
  step of this raises. Spark's decimal type (integers beyond 64 bits) and the merge of
  types inferred on separate partitions are left out.

  Each record, also one that repeats the header line after the first line, becomes one row
  as wide as the header (permissive mode: missing fields are null, surplus ones dropped); an
  empty field is null, and a field that the column type's parser rejects is read as null,
  together with the rest of its row where the platform keeps no partial rows.
\<close>

record csv =
  header :: "string list"
  records :: "string list list"

fun decimal :: "nat \<Rightarrow> string" where
  "decimal n =
     (if n < 10 then [char_of (48 + n)] else decimal (n div 10) @ [char_of (48 + n mod 10)])"

declare decimal.simps [simp del]

definition makeSafeHeader :: "string list \<Rightarrow> string list" where
  "makeSafeHeader row =
     map (\<lambda>(value, index).
            if value = [] then ''_c'' @ decimal index
            else if 1 < count_list (map (map toLower) row) (map toLower value)
            then value @ decimal index
            else value)
         (zip row [0..<length row])"

definition tryParseBoolean :: "platform \<Rightarrow> string \<Rightarrow> dtype" where
  "tryParseBoolean pf field = (if parseBoolean pf field \<noteq> None then BooleanType else StringType)"

definition tryParseTimestamp :: "platform \<Rightarrow> string \<Rightarrow> dtype" where
  "tryParseTimestamp pf field =
     (if parseTimestamp pf field \<noteq> None then TimestampType else tryParseBoolean pf field)"

definition tryParseDouble :: "platform \<Rightarrow> string \<Rightarrow> dtype" where
  "tryParseDouble pf field =
     (if parseDouble pf field \<noteq> None then DoubleType else tryParseTimestamp pf field)"

definition tryParseLong :: "platform \<Rightarrow> string \<Rightarrow> dtype" where
  "tryParseLong pf field =
     (if parseLong pf field \<noteq> None then LongType else tryParseDouble pf field)"

definition tryParseInteger :: "platform \<Rightarrow> string \<Rightarrow> dtype" where
  "tryParseInteger pf field =
     (if parseInt pf field \<noteq> None then IntegerType else tryParseLong pf field)"

definition compatibleType :: "dtype \<Rightarrow> dtype \<Rightarrow> dtype" where
  \<comment> \<open>\<^verbatim>\<open>compatibleType(t1, t2).getOrElse(StringType)\<close>: the wider of two numeric types, and
      string for two types of different kinds.\<close>
  "compatibleType t1 t2 =
     (if t1 = t2 then t1
      else if t1 = NullType then t2
      else if t2 = NullType then t1
      else if isNumeric t1 \<and> isNumeric t2
      then (if t1 = DoubleType \<or> t2 = DoubleType then DoubleType else LongType)
      else StringType)"

definition inferField :: "platform \<Rightarrow> dtype \<Rightarrow> string \<Rightarrow> dtype" where
  "inferField pf typeSoFar field =
     (if field = [] then typeSoFar
      else let typeElemInfer =
             (case typeSoFar of
                NullType \<Rightarrow> tryParseInteger pf field
              | IntegerType \<Rightarrow> tryParseInteger pf field
              | LongType \<Rightarrow> tryParseLong pf field
              | DoubleType \<Rightarrow> tryParseDouble pf field
              | TimestampType \<Rightarrow> tryParseTimestamp pf field
              | BooleanType \<Rightarrow> tryParseBoolean pf field
              | StringType \<Rightarrow> StringType)
           in if widens_types pf then compatibleType typeSoFar typeElemInfer else typeElemInfer)"

definition field_at :: "string list \<Rightarrow> nat \<Rightarrow> string" where
  "field_at r i = (if i < length r then r ! i else [])"

definition inferColumn :: "platform \<Rightarrow> csv \<Rightarrow> nat \<Rightarrow> dtype" where
  "inferColumn pf c i =
     (case foldl (inferField pf) NullType
             (map (\<lambda>r. field_at r i) (filter (\<lambda>r. r \<noteq> header c) (records c))) of
        NullType \<Rightarrow> StringType
      | t \<Rightarrow> t)"

definition accepts :: "platform \<Rightarrow> dtype \<Rightarrow> string \<Rightarrow> bool" where
  "accepts pf dt field =
     (field = [] \<or>
      (case dt of
          NullType \<Rightarrow> True
        | IntegerType \<Rightarrow> parseInt pf field \<noteq> None
        | LongType \<Rightarrow> parseLong pf field \<noteq> None
        | DoubleType \<Rightarrow> parseDouble pf field \<noteq> None
        | TimestampType \<Rightarrow> parseTimestamp pf field \<noteq> None
        | BooleanType \<Rightarrow> parseBoolean pf field \<noteq> None
        | StringType \<Rightarrow> True))"

definition castTo :: "platform \<Rightarrow> dtype \<Rightarrow> string \<Rightarrow> cell" where
  "castTo pf dt field =
     (if field = [] then Null
      else case dt of
          NullType \<Rightarrow> Null
        | IntegerType \<Rightarrow> (case parseInt pf field of Some n \<Rightarrow> IntV n | None \<Rightarrow> Null)
        | LongType \<Rightarrow> (case parseLong pf field of Some n \<Rightarrow> IntV n | None \<Rightarrow> Null)
        | DoubleType \<Rightarrow> (case parseDouble pf field of Some d \<Rightarrow> DblV d | None \<Rightarrow> Null)
        | TimestampType \<Rightarrow> (case parseTimestamp pf field of Some t \<Rightarrow> TsV t | None \<Rightarrow> Null)
        | BooleanType \<Rightarrow> (case parseBoolean pf field of Some b \<Rightarrow> BoolV b | None \<Rightarrow> Null)
        | StringType \<Rightarrow> StrV field)"

definition castRow :: "platform \<Rightarrow> dtype list \<Rightarrow> string list \<Rightarrow> cell list" where
  "castRow pf types r =
     (if \<not> keeps_partial_rows pf
         \<and> list_ex (\<lambda>i. \<not> accepts pf (types ! i) (field_at r i)) [0..<length types]
      then replicate (length types) Null
      else map (\<lambda>i. castTo pf (types ! i) (field_at r i)) [0..<length types])"

definition from_csv :: "platform \<Rightarrow> csv \<Rightarrow> dataframe" where
  "from_csv pf c =
     (let types = map (inferColumn pf c) [0..<length (header c)]
      in \<lparr>schema = zip (makeSafeHeader (header c)) types,
          rows = map (castRow pf types) (records c)\<rparr>)"

section \<open>The store\<close>

text \<open>
  The blob store and the cluster's file system, as one map from full paths to what is
  stored there. A parquet artifact (a directory of part files in the store) is one entry
  that holds the table written. Directories are not entries of their own, so
  \<^verbatim>\<open>dbutils.fs.mkdirs\<close> and \<^verbatim>\<open>dbutils.fs.ls\<close> change nothing. Copying from a
  directory with no file below it raises in the notebook, before the first load; here it
  copies nothing, and the first load then fails on the same store. A path that holds no
  CSV file cannot be loaded.
\<close>

datatype entry = Csv csv | Parquet dataframe

type_synonym filesystem = "string \<Rightarrow> entry option"

datatype error = PathNotFound string | WriteFailed string

definition os_path_join :: "string \<Rightarrow> string \<Rightarrow> string" where
  "os_path_join a b =
     (if b \<noteq> [] \<and> hd b = CHR ''/'' then b
      else if a = [] \<or> last a = CHR ''/'' then a @ b
      else a @ ''/'' @ b)"

definition dbutils_fs_cp :: "string \<Rightarrow> string \<Rightarrow> filesystem \<Rightarrow> filesystem" where
  \<comment> \<open>\<^verbatim>\<open>dbutils.fs.cp(from, to, recurse=True)\<close>: every file below \<open>from\<close> lands below \<open>to\<close>
      under the same relative name, replacing what was there.\<close>
  "dbutils_fs_cp from to fs =
     (\<lambda>p. if take (length to) p = to
          then (case fs (from @ drop (length to) p) of Some f \<Rightarrow> Some f | None \<Rightarrow> fs p)
          else fs p)"

definition dbutils_fs_rm :: "string \<Rightarrow> filesystem \<Rightarrow> filesystem" where
  "dbutils_fs_rm p fs = fs(p := None)"

definition spark_read_csv :: "platform \<Rightarrow> filesystem \<Rightarrow> string \<Rightarrow> error + dataframe" where
  "spark_read_csv pf fs p =
     (case fs p of Some (Csv c) \<Rightarrow> Inr (from_csv pf c) | _ \<Rightarrow> Inl (PathNotFound p))"

definition write_parquet ::
  "platform \<Rightarrow> string \<Rightarrow> dataframe \<Rightarrow> filesystem \<Rightarrow> error \<times> filesystem + filesystem" where
  \<comment> \<open>\<^verbatim>\<open>df.write.mode('overwrite').parquet(p)\<close>: overwrite mode removes what is at \<open>p\<close> before
      the write job runs, so a failed job leaves no artifact there. A write that the engine
      refuses for the table's column names, and a failure that leaves the old artifact at
      \<open>p\<close>, are outside the model.\<close>
  "write_parquet pf p df fs =
     (if write_fails pf p then Inl (WriteFailed p, fs(p := None))
      else Inr (fs(p \<mapsto> Parquet df)))"

section \<open>The notebook\<close>

text \<open>
  \<^verbatim>\<open>
  parquet_files_names = {'machines':'machines_files.parquet','maint':'maint_files.parquet',
           'errors': 'errors_files.parquet','telemetry':'telemetry_files.parquet',
          'failures':'failure_files.parquet'}
  csv_files_names = {'machines':'machines.csv','maint':'maint.csv',
           'errors': 'errors.csv','telemetry':'telemetry.csv',
          'failures':'failures.csv'}
  target_dir = "dbfs:/dataset/"
  storage_path = "wasb://predmaintenance@amlgitsamples.blob.core.windows.net/data/"
  dbutils.fs.mkdirs(target_dir)
  dbutils.fs.cp(storage_path, target_dir, recurse=True)
  \<close>
  The two dictionaries of cell 1 have the five logical sources as their keys, in this
  order: machines, maint, errors, telemetry, failures. Cells 4, 8, 12, 16 and 20 load
  machines, errors, maint, telemetry and failures from the storage path, each with
  \<^verbatim>\<open>os.path.join(storage_path, csv_files_names[...])\<close>; cell 16 goes on to handle the
  missing values of telemetry. The cells that only display or plot (6, 10, 14, 18, 22, and
  the \<^verbatim>\<open>display\<close> and \<^verbatim>\<open>print\<close> calls) read the tables and change neither a table nor
  the store; they are left out. An exception in one of them (a plot over a column that a
  table does not have) ends the notebook's run before cell 24, with the store as cell 1 left
  it; the model goes on, so it has successful runs on stores on which the notebook stops.
\<close>

datatype source = Machines | Maint | Errors | Telemetry | Failures

fun parquet_files_names :: "source \<Rightarrow> string" where
  "parquet_files_names Machines = ''machines_files.parquet''"
| "parquet_files_names Maint = ''maint_files.parquet''"
| "parquet_files_names Errors = ''errors_files.parquet''"
| "parquet_files_names Telemetry = ''telemetry_files.parquet''"
| "parquet_files_names Failures = ''failure_files.parquet''"

fun csv_files_names :: "source \<Rightarrow> string" where
  "csv_files_names Machines = ''machines.csv''"
| "csv_files_names Maint = ''maint.csv''"
| "csv_files_names Errors = ''errors.csv''"
| "csv_files_names Telemetry = ''telemetry.csv''"
| "csv_files_names Failures = ''failures.csv''"

definition csv_files_names_keys :: "source list" where
  "csv_files_names_keys = [Machines, Maint, Errors, Telemetry, Failures]"

definition target_dir :: string where
  "target_dir = ''dbfs:/dataset/''"

definition storage_path :: string where
  "storage_path = ''wasb://predmaintenance@amlgitsamples.blob.core.windows.net/data/''"

definition cell_1 :: "filesystem \<Rightarrow> filesystem" where
  "cell_1 fs = dbutils_fs_cp storage_path target_dir fs"

definition cell_4 :: "platform \<Rightarrow> filesystem \<Rightarrow> error + dataframe" where
  "cell_4 pf fs = spark_read_csv pf fs (os_path_join storage_path (csv_files_names Machines))"

definition cell_8 :: "platform \<Rightarrow> filesystem \<Rightarrow> error + dataframe" where
  "cell_8 pf fs = spark_read_csv pf fs (os_path_join storage_path (csv_files_names Errors))"

definition cell_12 :: "platform \<Rightarrow> filesystem \<Rightarrow> error + dataframe" where
  "cell_12 pf fs = spark_read_csv pf fs (os_path_join storage_path (csv_files_names Maint))"

definition cell_16 :: "platform \<Rightarrow> filesystem \<Rightarrow> error + dataframe" where
  "cell_16 pf fs =
     (case spark_read_csv pf fs (os_path_join storage_path (csv_files_names Telemetry)) of
        Inl e \<Rightarrow> Inl e
      | Inr telemetry \<Rightarrow> Inr (handle_missing_values telemetry))"

definition cell_20 :: "platform \<Rightarrow> filesystem \<Rightarrow> error + dataframe" where
  "cell_20 pf fs = spark_read_csv pf fs (os_path_join storage_path (csv_files_names Failures))"

text \<open>
  \<^verbatim>\<open>
  machines.write.mode('overwrite').parquet(os.path.join(target_dir,parquet_files_names['machines']))
  errors.write.mode('overwrite').parquet(os.path.join(target_dir,parquet_files_names['errors']))
  maint.write.mode('overwrite').parquet(os.path.join(target_dir,parquet_files_names['maint']))
  telemetry.write.mode('overwrite').parquet(os.path.join(target_dir,parquet_files_names['telemetry']))
  failures.write.mode('overwrite').parquet(os.path.join(target_dir,parquet_files_names['failures']))
  for key, val in csv_files_names.items():
    dbutils.fs.rm(os.path.join(target_dir, csv_files_names[key]))
  \<close>
\<close>

definition cell_24 ::
  "platform \<Rightarrow> dataframe \<Rightarrow> dataframe \<Rightarrow> dataframe \<Rightarrow> dataframe \<Rightarrow> dataframe \<Rightarrow>
   filesystem \<Rightarrow> error \<times> filesystem + filesystem" where
  "cell_24 pf machines errors maint telemetry failures fs =
     (case write_parquet pf (os_path_join target_dir (parquet_files_names Machines)) machines fs of
        Inl x \<Rightarrow> Inl x
      | Inr fs1 \<Rightarrow>
     (case write_parquet pf (os_path_join target_dir (parquet_files_names Errors)) errors fs1 of
        Inl x \<Rightarrow> Inl x
      | Inr fs2 \<Rightarrow>
     (case write_parquet pf (os_path_join target_dir (parquet_files_names Maint)) maint fs2 of
        Inl x \<Rightarrow> Inl x
      | Inr fs3 \<Rightarrow>
     (case write_parquet pf (os_path_join target_dir (parquet_files_names Telemetry)) telemetry fs3 of
        Inl x \<Rightarrow> Inl x
      | Inr fs4 \<Rightarrow>
     (case write_parquet pf (os_path_join target_dir (parquet_files_names Failures)) failures fs4 of
        Inl x \<Rightarrow> Inl x
      | Inr fs5 \<Rightarrow>
          Inr (fold (\<lambda>key. dbutils_fs_rm (os_path_join target_dir (csv_files_names key)))
                 csv_files_names_keys fs5))))))"

text \<open>
  Running all cells in order. An exception in a cell ends the run; the store stays as the
  cells before it left it.
\<close>

definition run :: "platform \<Rightarrow> filesystem \<Rightarrow> error \<times> filesystem + filesystem" where
  "run pf fs =
     (let fs1 = cell_1 fs in
      case cell_4 pf fs1 of Inl e \<Rightarrow> Inl (e, fs1) | Inr machines \<Rightarrow>
      (case cell_8 pf fs1 of Inl e \<Rightarrow> Inl (e, fs1) | Inr errors \<Rightarrow>
      (case cell_12 pf fs1 of Inl e \<Rightarrow> Inl (e, fs1) | Inr maint \<Rightarrow>
      (case cell_16 pf fs1 of Inl e \<Rightarrow> Inl (e, fs1) | Inr telemetry \<Rightarrow>
      (case cell_20 pf fs1 of Inl e \<Rightarrow> Inl (e, fs1) | Inr failures \<Rightarrow>
         cell_24 pf machines errors maint telemetry failures fs1)))))"

definition succeeded :: "error \<times> filesystem + filesystem \<Rightarrow> bool" where
  "succeeded r = (case r of Inl x \<Rightarrow> False | Inr fs \<Rightarrow> True)"

definition store_after :: "error \<times> filesystem + filesystem \<Rightarrow> filesystem" where
  "store_after r = (case r of Inl x \<Rightarrow> snd x | Inr fs \<Rightarrow> fs)"

section \<open>Paths, tables and artifacts of a run\<close>

abbreviation source_path :: "source \<Rightarrow> string" where
  "source_path s \<equiv> os_path_join storage_path (csv_files_names s)"

abbreviation copy_path :: "source \<Rightarrow> string" where
  "copy_path s \<equiv> os_path_join target_dir (csv_files_names s)"

abbreviation artifact_path :: "source \<Rightarrow> string" where
  "artifact_path s \<equiv> os_path_join target_dir (parquet_files_names s)"

text \<open>The table that the notebook holds for a source when cell 24 starts.\<close>

fun table_of :: "platform \<Rightarrow> filesystem \<Rightarrow> source \<Rightarrow> error + dataframe" where
  "table_of pf fs Machines = cell_4 pf fs"
| "table_of pf fs Errors = cell_8 pf fs"
| "table_of pf fs Maint = cell_12 pf fs"
| "table_of pf fs Telemetry = cell_16 pf fs"
| "table_of pf fs Failures = cell_20 pf fs"

text \<open>The position of a source's write among the five write statements of cell 24.\<close>

fun write_position :: "source \<Rightarrow> nat" where
  "write_position Machines = 0"
| "write_position Errors = 1"
| "write_position Maint = 2"
| "write_position Telemetry = 3"
| "write_position Failures = 4"

text \<open>The store that cell 24 leaves when all five writes succeed.\<close>

definition written ::
  "dataframe \<Rightarrow> dataframe \<Rightarrow> dataframe \<Rightarrow> dataframe \<Rightarrow> dataframe \<Rightarrow> filesystem \<Rightarrow> filesystem" where
  "written m e mt t f fs =
     (fs(artifact_path Machines \<mapsto> Parquet m, artifact_path Errors \<mapsto> Parquet e,
         artifact_path Maint \<mapsto> Parquet mt, artifact_path Telemetry \<mapsto> Parquet t,
         artifact_path Failures \<mapsto> Parquet f))
       (copy_path Machines := None, copy_path Maint := None, copy_path Errors := None,
        copy_path Telemetry := None, copy_path Failures := None)"

definition artifact_count :: "filesystem \<Rightarrow> string \<Rightarrow> nat option" where
  "artifact_count fs p = (case fs p of Some (Parquet t) \<Rightarrow> Some (count t) | _ \<Rightarrow> None)"

section \<open>A platform and stores for the examples\<close>

text \<open>
  A platform whose parsers read plain notation only: decimal integers with an optional
  minus sign, decimal fractions and \<^verbatim>\<open>NaN\<close>, timestamps written
  \<^verbatim>\<open>yyyy-MM-dd HH:mm:ss\<close> (kept as the number their fourteen digits spell), and
  \<^verbatim>\<open>true\<close> and \<^verbatim>\<open>false\<close>. It reads as Spark 2 does, and no write fails on it.
\<close>

definition digit :: "char \<Rightarrow> nat option" where
  "digit c = (let n = (of_char c :: nat) in if 48 \<le> n \<and> n \<le> 57 then Some (n - 48) else None)"

fun digits :: "nat \<Rightarrow> string \<Rightarrow> nat option" where
  "digits a [] = Some a"
| "digits a (c # cs) = (case digit c of None \<Rightarrow> None | Some d \<Rightarrow> digits (10 * a + d) cs)"

definition plain_nat :: "string \<Rightarrow> nat option" where
  "plain_nat s = (if s = [] then None else digits 0 s)"

definition plain_int :: "string \<Rightarrow> int option" where
  "plain_int s =
     (case s of [] \<Rightarrow> None
      | c # cs \<Rightarrow> if c = CHR ''-'' then map_option (\<lambda>n. - int n) (plain_nat cs)
                 else map_option int (plain_nat s))"

definition plain_parseInt :: "string \<Rightarrow> int option" where
  "plain_parseInt s =
     (case plain_int s of None \<Rightarrow> None
      | Some n \<Rightarrow> if - (2 ^ 31) \<le> n \<and> n < 2 ^ 31 then Some n else None)"

definition plain_parseLong :: "string \<Rightarrow> int option" where
  "plain_parseLong s =
     (case plain_int s of None \<Rightarrow> None
      | Some n \<Rightarrow> if - (2 ^ 63) \<le> n \<and> n < 2 ^ 63 then Some n else None)"

definition plain_parseDouble :: "string \<Rightarrow> double option" where
  "plain_parseDouble s =
     (if s = ''NaN'' then Some NaN
      else case plain_int (takeWhile (\<lambda>c. c \<noteq> CHR ''.'') s) of None \<Rightarrow> None
        | Some n \<Rightarrow>
           (case dropWhile (\<lambda>c. c \<noteq> CHR ''.'') s of [] \<Rightarrow> Some (D (of_int n))
            | c # ds \<Rightarrow>
               (case plain_nat ds of None \<Rightarrow> None
                | Some m \<Rightarrow>
                    Some (D (if hd s = CHR ''-''
                             then of_int n - of_nat m / 10 ^ length ds
                             else of_int n + of_nat m / 10 ^ length ds)))))"

definition plain_parseTimestamp :: "string \<Rightarrow> int option" where
  "plain_parseTimestamp s =
     (if length s = 19 \<and> s ! 4 = CHR ''-'' \<and> s ! 7 = CHR ''-'' \<and> s ! 10 = CHR '' ''
         \<and> s ! 13 = CHR '':'' \<and> s ! 16 = CHR '':''
      then map_option int
             (plain_nat (take 4 s @ take 2 (drop 5 s) @ take 2 (drop 8 s) @ take 2 (drop 11 s)
                         @ take 2 (drop 14 s) @ take 2 (drop 17 s)))
      else None)"

definition plain_parseBoolean :: "string \<Rightarrow> bool option" where
  "plain_parseBoolean s =
     (if map toLower s = ''true'' then Some True
      else if map toLower s = ''false'' then Some False else None)"

definition never :: "string \<Rightarrow> bool" where
  "never p = False"

definition plain :: platform where
  "plain = \<lparr>parseInt = plain_parseInt, parseLong = plain_parseLong,
            parseDouble = plain_parseDouble, parseTimestamp = plain_parseTimestamp,
            parseBoolean = plain_parseBoolean, widens_types = False,
            keeps_partial_rows = False, write_fails = never\<rparr>"

text \<open>The same platform, on which the write of the maintenance artifact fails.\<close>

definition maint_write_fails :: "string \<Rightarrow> bool" where
  "maint_write_fails p = (p = ''dbfs:/dataset/maint_files.parquet'')"

definition flaky :: platform where
  "flaky = plain\<lparr>write_fails := maint_write_fails\<rparr>"

text \<open>
  Five small sources with the columns that the notebook's plots name, and the tables they
  load as on this platform.
\<close>

definition machines_csv :: csv where
  "machines_csv = \<lparr>header = [''machineID'', ''model'', ''age''],
     records = [[''1'', ''model3'', ''18''], [''2'', ''model4'', ''7''], [''3'', ''model3'', ''8'']]\<rparr>"

definition machines_table :: dataframe where
  "machines_table =
     \<lparr>schema = [(''machineID'', IntegerType), (''model'', StringType), (''age'', IntegerType)],
      rows = [[IntV 1, StrV ''model3'', IntV 18], [IntV 2, StrV ''model4'', IntV 7],
              [IntV 3, StrV ''model3'', IntV 8]]\<rparr>"

definition errors_csv :: csv where
  "errors_csv = \<lparr>header = [''datetime'', ''machineID'', ''errorID''],
     records = [[''2015-01-03 07:00:00'', ''1'', ''error1''],
                [''2015-01-03 20:00:00'', ''3'', ''error3'']]\<rparr>"

definition errors_table :: dataframe where
  "errors_table =
     \<lparr>schema = [(''datetime'', TimestampType), (''machineID'', IntegerType), (''errorID'', StringType)],
      rows = [[TsV 20150103070000, IntV 1, StrV ''error1''],
              [TsV 20150103200000, IntV 3, StrV ''error3'']]\<rparr>"

definition maint_csv :: csv where
  "maint_csv = \<lparr>header = [''datetime'', ''machineID'', ''comp''],
     records = [[''2014-06-01 06:00:00'', ''1'', ''comp2''],
                [''2015-01-05 06:00:00'', ''2'', ''comp4'']]\<rparr>"

definition maint_table :: dataframe where
  "maint_table =
     \<lparr>schema = [(''datetime'', TimestampType), (''machineID'', IntegerType), (''comp'', StringType)],
      rows = [[TsV 20140601060000, IntV 1, StrV ''comp2''],
              [TsV 20150105060000, IntV 2, StrV ''comp4'']]\<rparr>"

definition telemetry_csv :: csv where
  "telemetry_csv =
     \<lparr>header = [''datetime'', ''machineID'', ''voltage'', ''rotation'', ''pressure'', ''vibration''],
      records = [[''2015-02-01 06:00:00'', ''1'', ''176.2'', ''418'', ''113.1'', ''45.1''],
                 [''2015-02-01 07:00:00'', ''1'', '''', ''402'', ''95.5'', ''43.4''],
                 [''2015-02-01 08:00:00'', ''1'', ''170.9'', '''', ''101.2'', ''NaN'']]\<rparr>"

definition telemetry_table :: dataframe where
  "telemetry_table =
     \<lparr>schema = [(''datetime'', TimestampType), (''machineID'', IntegerType),
                (''voltage'', DoubleType), (''rotation'', IntegerType),
                (''pressure'', DoubleType), (''vibration'', DoubleType)],
      rows = [[TsV 20150201060000, IntV 1, DblV (D (1762 / 10)), IntV 418,
               DblV (D (1131 / 10)), DblV (D (451 / 10))],
              [TsV 20150201070000, IntV 1, Null, IntV 402,
               DblV (D (955 / 10)), DblV (D (434 / 10))],
              [TsV 20150201080000, IntV 1, DblV (D (1709 / 10)), Null,
               DblV (D (1012 / 10)), DblV NaN]]\<rparr>"

definition telemetry_filled :: dataframe where
  "telemetry_filled =
     \<lparr>schema = [(''datetime'', TimestampType), (''machineID'', IntegerType),
                (''voltage'', DoubleType), (''rotation'', IntegerType),
                (''pressure'', DoubleType), (''vibration'', DoubleType)],
      rows = [[TsV 20150201060000, IntV 1, DblV (D (1762 / 10)), IntV 418,
               DblV (D (1131 / 10)), DblV (D (451 / 10))],
              [TsV 20150201070000, IntV 1, DblV (D 0), IntV 402,
               DblV (D (955 / 10)), DblV (D (434 / 10))],
              [TsV 20150201080000, IntV 1, DblV (D (1709 / 10)), IntV 0,
               DblV (D (1012 / 10)), DblV (D 0)]]\<rparr>"

text \<open>A telemetry table whose machine identifiers are texts, one of them missing.\<close>

definition telemetry_text_ids :: dataframe where
  "telemetry_text_ids =
     \<lparr>schema = [(''datetime'', TimestampType), (''machineID'', StringType),
                (''voltage'', DoubleType)],
      rows = [[TsV 20150201060000, StrV ''M1'', DblV (D (1762 / 10))],
              [TsV 20150201070000, Null, DblV (D (1709 / 10))]]\<rparr>"

definition failures_csv :: csv where
  "failures_csv = \<lparr>header = [''datetime'', ''machineID'', ''failure''],
     records = [[''2015-01-05 06:00:00'', ''2'', ''comp4'']]\<rparr>"

definition failures_table :: dataframe where
  "failures_table =
     \<lparr>schema = [(''datetime'', TimestampType), (''machineID'', IntegerType), (''failure'', StringType)],
      rows = [[TsV 20150105060000, IntV 2, StrV ''comp4'']]\<rparr>"

text \<open>
  A store that holds the five sources and, from an earlier run, five artifacts.
\<close>

definition old_table :: dataframe where
  "old_table = \<lparr>schema = [(''machineID'', IntegerType)], rows = [[IntV 7]]\<rparr>"

definition store0 :: filesystem where
  "store0 =
     [storage_path @ ''machines.csv'' \<mapsto> Csv machines_csv,
      storage_path @ ''errors.csv'' \<mapsto> Csv errors_csv,
      storage_path @ ''maint.csv'' \<mapsto> Csv maint_csv,
      storage_path @ ''telemetry.csv'' \<mapsto> Csv telemetry_csv,
      storage_path @ ''failures.csv'' \<mapsto> Csv failures_csv,
      target_dir @ ''machines_files.parquet'' \<mapsto> Parquet old_table,
      target_dir @ ''errors_files.parquet'' \<mapsto> Parquet old_table,
      target_dir @ ''maint_files.parquet'' \<mapsto> Parquet old_table,
      target_dir @ ''telemetry_files.parquet'' \<mapsto> Parquet old_table,
      target_dir @ ''failure_files.parquet'' \<mapsto> Parquet old_table]"

text \<open>An error log with a record whose error class is missing.\<close>

definition errors_csv_gap :: csv where
  "errors_csv_gap = \<lparr>header = [''datetime'', ''machineID'', ''errorID''],
     records = [[''2015-01-03 07:00:00'', ''1'', ''error1''],
                [''2015-01-03 20:00:00'', ''3'', '''']]\<rparr>"

definition errors_table_gap :: dataframe where
  "errors_table_gap =
     \<lparr>schema = [(''datetime'', TimestampType), (''machineID'', IntegerType), (''errorID'', StringType)],
      rows = [[TsV 20150103070000, IntV 1, StrV ''error1''],
              [TsV 20150103200000, IntV 3, Null]]\<rparr>"

definition store_gap :: filesystem where
  "store_gap = store0(storage_path @ ''errors.csv'' \<mapsto> Csv errors_csv_gap)"







text \<open>A machine table whose age column holds a text that is no number.\<close>

definition machines_csv_text :: csv where
  "machines_csv_text = \<lparr>header = [''machineID'', ''model'', ''age''],
     records = [[''1'', ''model3'', ''18''], [''2'', ''model4'', ''seven''],
                [''3'', ''model3'', ''8'']]\<rparr>"

definition machines_table_text :: dataframe where
  "machines_table_text =
     \<lparr>schema = [(''machineID'', IntegerType), (''model'', StringType), (''age'', StringType)],
      rows = [[IntV 1, StrV ''model3'', StrV ''18''], [IntV 2, StrV ''model4'', StrV ''seven''],
              [IntV 3, StrV ''model3'', StrV ''8'']]\<rparr>"

definition store_text :: filesystem where
  "store_text = store0(storage_path @ ''machines.csv'' \<mapsto> Csv machines_csv_text)"




text \<open>A field that none of the platform's parsers accepts.\<close>

definition unparsable :: "platform \<Rightarrow> string \<Rightarrow> bool" where
  "unparsable pf x =
     (x \<noteq> [] \<and> parseInt pf x = None \<and> parseLong pf x = None \<and> parseDouble pf x = None
      \<and> parseTimestamp pf x = None \<and> parseBoolean pf x = None)"


section \<open>Properties of fillna and of the handling of missing values\<close>

lemma schema_fillna: "schema (fillna v cols df) = schema df"
  by (simp add: fillna_def)

lemma length_fillRow: "length (fillRow v cols fs cs) = length cs"
  by (induction v cols fs cs rule: fillRow.induct) simp_all

lemma fillCol_keeps: "\<not> missing c \<Longrightarrow> fillCol v dt c = c"
  by (cases v; cases dt) (simp_all add: missing_def)

lemma fillCol_not_Null: "fillCol v dt c \<noteq> Null"
  by (cases v; cases dt) simp_all

lemma fillCol_idem: "fillCol v dt (fillCol v dt c) = fillCol v dt c"
  by (cases v; cases dt) simp_all

lemma fillRow_nth:
  "i < length cs \<Longrightarrow>
   fillRow v cols fs cs ! i =
     (if i < length fs \<and> typeMatches v (snd (fs ! i)) \<and> list_ex (resolver (fst (fs ! i))) cols
      then fillCol v (snd (fs ! i)) (cs ! i) else cs ! i)"
proof (induction v cols fs cs arbitrary: i rule: fillRow.induct)
  case (1 v cols f fs c cs)
  then show ?case by (cases i) simp_all
qed simp_all

lemma fill_twice_idem:
  "fillRow (PyStr u) cs fs (fillRow (PyInt 0) ns fs
     (fillRow (PyStr u) cs fs (fillRow (PyInt 0) ns fs row)))
   = fillRow (PyStr u) cs fs (fillRow (PyInt 0) ns fs row)"
  by (induction "PyInt 0" ns fs row rule: fillRow.induct)
     (auto simp: isNumeric_def fillCol_idem)

lemma rows_handle_missing_values:
  "rows (handle_missing_values T) =
     map (\<lambda>row. fillRow (PyStr ''Unknown'') features_categorical (schema T)
                  (fillRow (PyInt 0) (features_numeric T) (schema T) row)) (rows T)"
  by (simp add: handle_missing_values_def fillna_def comp_def)

lemma schema_handle_missing_values: "schema (handle_missing_values T) = schema T"
  by (simp add: handle_missing_values_def fillna_def)

lemma features_numeric_handle_missing_values:
  "features_numeric (handle_missing_values T) = features_numeric T"
  by (simp add: features_numeric_def columns_def schema_handle_missing_values)

lemma count_handle_missing_values: "count (handle_missing_values T) = count T"
  by (simp add: count_def handle_missing_values_def fillna_def)

lemma resolver_refl: "resolver a a"
  by (simp add: resolver_def)

lemma in_features_numeric:
  "i < length (schema T) \<Longrightarrow>
   fst (schema T ! i) \<notin> set features_datetime \<union> set features_categorical \<Longrightarrow>
   list_ex (resolver (fst (schema T ! i))) (features_numeric T)"
  unfolding list_ex_iff features_numeric_def columns_def
  by (rule bexI [where x = "fst (schema T ! i)"]) (auto simp: resolver_refl)

lemma handle_missing_values_nth:
  assumes "r < length (rows T)" "i < length (rows T ! r)"
  shows "rows (handle_missing_values T) ! r ! i =
     (let c = rows T ! r ! i in
      if i < length (schema T) then
        (let c1 = (if isNumeric (snd (schema T ! i))
                      \<and> list_ex (resolver (fst (schema T ! i))) (features_numeric T)
                   then fillCol (PyInt 0) (snd (schema T ! i)) c else c)
         in if snd (schema T ! i) = StringType
                \<and> list_ex (resolver (fst (schema T ! i))) features_categorical
            then fillCol (PyStr ''Unknown'') (snd (schema T ! i)) c1 else c1)
      else c)"
  using assms
  by (simp add: handle_missing_values_def fillna_def fillRow_nth length_fillRow Let_def)




lemmas impute_defs = handle_missing_values_def fillna_def features_numeric_def
  features_datetime_def features_categorical_def columns_def isNumeric_def resolver_def
  toLower_def missing_def

lemma fill_telemetry: "handle_missing_values telemetry_table = telemetry_filled"
  by (simp add: telemetry_table_def telemetry_filled_def impute_defs)

text \<open>
  C2. Handling the missing values twice gives the same table as handling them once, for
  every table.
\<close>

theorem imputation_idempotent:
  "handle_missing_values (handle_missing_values T) = handle_missing_values T"
proof -
  have "schema (handle_missing_values (handle_missing_values T)) = schema (handle_missing_values T)"
    by (simp add: schema_handle_missing_values)
  moreover
  have "rows (handle_missing_values (handle_missing_values T)) = rows (handle_missing_values T)"
    by (simp add: rows_handle_missing_values [of "handle_missing_values T"]
          features_numeric_handle_missing_values schema_handle_missing_values)
       (simp add: rows_handle_missing_values fill_twice_idem)
  moreover
  have "dataframe.more (handle_missing_values (handle_missing_values T))
        = dataframe.more (handle_missing_values T)"
    by simp
  ultimately show ?thesis by (intro dataframe.equality) simp_all
qed

theorem imputation_idempotent_witness:
  "handle_missing_values (handle_missing_values telemetry_table) = telemetry_filled
   \<and> telemetry_filled \<noteq> telemetry_table"
  using imputation_idempotent [of telemetry_table]
  by (simp add: fill_telemetry) (simp add: telemetry_filled_def telemetry_table_def)

text \<open>
  C3. Handling the missing values changes only missing cells. For every table, every row
  \<open>r\<close> and every cell \<open>i\<close> of it: a cell that is not missing keeps its value; in a
  numeric column other than \<^verbatim>\<open>datetime\<close> and \<^verbatim>\<open>machineID\<close> (such as the voltage), a
  missing cell becomes 0, as a double in a double column and as an integer in an integer
  column; the table keeps its schema, its number of rows and the width of each row.
\<close>

theorem imputation_changes_only_missing_cells:
  assumes "r < length (rows T)" and "i < length (rows T ! r)"
  shows "(\<not> missing (rows T ! r ! i) \<longrightarrow>
            rows (handle_missing_values T) ! r ! i = rows T ! r ! i)
    \<and> (i < length (schema T)
         \<and> fst (schema T ! i) \<notin> set features_datetime \<union> set features_categorical \<longrightarrow>
           (snd (schema T ! i) = DoubleType \<and> missing (rows T ! r ! i) \<longrightarrow>
              rows (handle_missing_values T) ! r ! i = DblV (D 0))
         \<and> ((snd (schema T ! i) = IntegerType \<or> snd (schema T ! i) = LongType)
              \<and> rows T ! r ! i = Null \<longrightarrow>
              rows (handle_missing_values T) ! r ! i = IntV 0))
    \<and> length (rows (handle_missing_values T)) = length (rows T)
    \<and> length (rows (handle_missing_values T) ! r) = length (rows T ! r)
    \<and> schema (handle_missing_values T) = schema T"
proof (intro conjI impI)
  assume "\<not> missing (rows T ! r ! i)"
  then show "rows (handle_missing_values T) ! r ! i = rows T ! r ! i"
    by (auto simp: handle_missing_values_nth [OF assms] Let_def fillCol_keeps missing_def)
next
  assume h: "i < length (schema T)
     \<and> fst (schema T ! i) \<notin> set features_datetime \<union> set features_categorical"
  then have ex: "list_ex (resolver (fst (schema T ! i))) (features_numeric T)"
    by (simp add: in_features_numeric)
  { assume "snd (schema T ! i) = DoubleType \<and> missing (rows T ! r ! i)"
    with h ex show "rows (handle_missing_values T) ! r ! i = DblV (D 0)"
      by (auto simp: handle_missing_values_nth [OF assms] Let_def isNumeric_def missing_def) }
  { assume "(snd (schema T ! i) = IntegerType \<or> snd (schema T ! i) = LongType)
            \<and> rows T ! r ! i = Null"
    with h ex show "rows (handle_missing_values T) ! r ! i = IntV 0"
      by (auto simp: handle_missing_values_nth [OF assms] Let_def isNumeric_def) }
next
  show "length (rows (handle_missing_values T)) = length (rows T)"
    by (simp add: rows_handle_missing_values)
  show "length (rows (handle_missing_values T) ! r) = length (rows T ! r)"
    using assms by (simp add: rows_handle_missing_values length_fillRow)
  show "schema (handle_missing_values T) = schema T"
    by (rule schema_handle_missing_values)
qed

theorem imputation_changes_only_missing_cells_witness:
  "schema telemetry_table ! 2 = (''voltage'', DoubleType)
   \<and> rows telemetry_table ! 1 ! 2 = Null
   \<and> rows (handle_missing_values telemetry_table) ! 1 ! 2 = DblV (D 0)
   \<and> rows (handle_missing_values telemetry_table) ! 1 ! 0 = TsV 20150201070000
   \<and> rows (handle_missing_values telemetry_table) ! 1 ! 1 = IntV 1
   \<and> rows (handle_missing_values telemetry_table) ! 1 ! 3 = IntV 402
   \<and> rows (handle_missing_values telemetry_table) ! 1 ! 4 = DblV (D (955 / 10))
   \<and> rows (handle_missing_values telemetry_table) ! 1 ! 5 = DblV (D (434 / 10))
   \<and> schema telemetry_table ! 3 = (''rotation'', IntegerType)
   \<and> rows telemetry_table ! 2 ! 3 = Null
   \<and> rows (handle_missing_values telemetry_table) ! 2 ! 3 = IntV 0
   \<and> length (rows (handle_missing_values telemetry_table)) = 3
   \<and> length (rows (handle_missing_values telemetry_table) ! 1) = 6"
proof -
  have r1: "1 < length (rows telemetry_table)" and r2: "2 < length (rows telemetry_table)"
    by (simp_all add: telemetry_table_def)
  have i: "0 < length (rows telemetry_table ! 1)" "1 < length (rows telemetry_table ! 1)"
    "2 < length (rows telemetry_table ! 1)" "3 < length (rows telemetry_table ! 1)"
    "4 < length (rows telemetry_table ! 1)" "5 < length (rows telemetry_table ! 1)"
    and j: "3 < length (rows telemetry_table ! 2)"
    by (simp_all add: telemetry_table_def)
  show ?thesis
    using imputation_changes_only_missing_cells [OF r1 i(1)]
      imputation_changes_only_missing_cells [OF r1 i(2)]
      imputation_changes_only_missing_cells [OF r1 i(3)]
      imputation_changes_only_missing_cells [OF r1 i(4)]
      imputation_changes_only_missing_cells [OF r1 i(5)]
      imputation_changes_only_missing_cells [OF r1 i(6)]
      imputation_changes_only_missing_cells [OF r2 j]
    by (simp add: telemetry_table_def features_datetime_def features_categorical_def missing_def)
qed

text \<open>
  C1, as amended. After the handling of missing values, no cell of the telemetry table is
  null in a numeric column other than \<^verbatim>\<open>datetime\<close> and \<^verbatim>\<open>machineID\<close>, nor NaN in a
  double one, and no cell of a string column \<^verbatim>\<open>machineID\<close> is null.
\<close>

theorem telemetry_numeric_fields_not_missing:
  assumes "r < length (rows T)" and "i < length (rows T ! r)" and "i < length (schema T)"
  shows "(fst (schema T ! i) \<notin> set features_datetime \<union> set features_categorical
           \<and> isNumeric (snd (schema T ! i)) \<longrightarrow>
            rows (handle_missing_values T) ! r ! i \<noteq> Null
            \<and> (snd (schema T ! i) = DoubleType \<longrightarrow>
                 \<not> missing (rows (handle_missing_values T) ! r ! i)))
    \<and> (fst (schema T ! i) \<in> set features_categorical \<and> snd (schema T ! i) = StringType \<longrightarrow>
          rows (handle_missing_values T) ! r ! i \<noteq> Null)"
proof (intro conjI impI)
  assume h: "fst (schema T ! i) \<notin> set features_datetime \<union> set features_categorical
           \<and> isNumeric (snd (schema T ! i))"
  with assms have ex: "list_ex (resolver (fst (schema T ! i))) (features_numeric T)"
    by (simp add: in_features_numeric)
  from h have ns: "snd (schema T ! i) \<noteq> StringType"
    by (auto simp: isNumeric_def)
  show "rows (handle_missing_values T) ! r ! i \<noteq> Null"
    using h ex ns assms(3)
    by (simp add: handle_missing_values_nth [OF assms(1,2)] Let_def fillCol_not_Null)
  assume "snd (schema T ! i) = DoubleType"
  then show "\<not> missing (rows (handle_missing_values T) ! r ! i)"
    using h ex assms(3)
    by (simp add: handle_missing_values_nth [OF assms(1,2)] Let_def missing_def)
next
  assume h: "fst (schema T ! i) \<in> set features_categorical \<and> snd (schema T ! i) = StringType"
  then have "list_ex (resolver (fst (schema T ! i))) features_categorical"
    unfolding list_ex_iff
    by (auto intro: bexI [where x = "fst (schema T ! i)"] simp: resolver_refl)
  then show "rows (handle_missing_values T) ! r ! i \<noteq> Null"
    using h assms(3)
    by (simp add: handle_missing_values_nth [OF assms(1,2)] Let_def fillCol_not_Null)
qed

theorem telemetry_numeric_fields_not_missing_witness:
  "rows telemetry_table ! 1 ! 2 = Null
   \<and> rows (handle_missing_values telemetry_table) ! 1 ! 2 \<noteq> Null
   \<and> rows telemetry_table ! 2 ! 5 = DblV NaN
   \<and> \<not> missing (rows (handle_missing_values telemetry_table) ! 2 ! 5)
   \<and> schema telemetry_text_ids ! 1 = (''machineID'', StringType)
   \<and> rows telemetry_text_ids ! 1 ! 1 = Null
   \<and> rows (handle_missing_values telemetry_text_ids) ! 1 ! 1 \<noteq> Null"
proof -
  have a: "1 < length (rows telemetry_table)" "2 < length (rows telemetry_table ! 1)"
    "2 < length (schema telemetry_table)"
    and b: "2 < length (rows telemetry_table)" "5 < length (rows telemetry_table ! 2)"
    "5 < length (schema telemetry_table)"
    by (simp_all add: telemetry_table_def)
  have c: "1 < length (rows telemetry_text_ids)" "1 < length (rows telemetry_text_ids ! 1)"
    "1 < length (schema telemetry_text_ids)"
    by (simp_all add: telemetry_text_ids_def)
  show ?thesis
    using telemetry_numeric_fields_not_missing [OF a]
      telemetry_numeric_fields_not_missing [OF b]
      telemetry_numeric_fields_not_missing [OF c]
    by (simp add: telemetry_table_def telemetry_text_ids_def features_datetime_def
          features_categorical_def isNumeric_def)
qed

section \<open>Paths\<close>

lemma join_target:
  "os_path_join target_dir b = (if b \<noteq> [] \<and> hd b = CHR ''/'' then b else target_dir @ b)"
  by (simp add: os_path_join_def target_dir_def)

lemma join_storage:
  "os_path_join storage_path b = (if b \<noteq> [] \<and> hd b = CHR ''/'' then b else storage_path @ b)"
  by (simp add: os_path_join_def storage_path_def)

lemma copy_path_eq: "copy_path s = target_dir @ csv_files_names s"
  by (cases s) (simp_all add: join_target)

lemma source_path_eq: "source_path s = storage_path @ csv_files_names s"
  by (cases s) (simp_all add: join_storage)

lemma source_all:
  "(\<forall>s. P s) \<longleftrightarrow> P Machines \<and> P Maint \<and> P Errors \<and> P Telemetry \<and> P Failures"
  by (metis source.exhaust)

lemma UNIV_source: "(UNIV :: source set) = {Machines, Maint, Errors, Telemetry, Failures}"
  by (auto intro: source.exhaust)

lemma card_artifact_paths: "card (range artifact_path) = 5"
  by (simp add: UNIV_source join_target)

section \<open>The cells\<close>

lemma cell_1_storage: "cell_1 fs (storage_path @ x) = fs (storage_path @ x)"
  by (simp add: cell_1_def dbutils_fs_cp_def storage_path_def target_dir_def)

lemma cell_1_copy: "fs (storage_path @ rel) = Some f \<Longrightarrow> cell_1 fs (target_dir @ rel) = Some f"
  by (simp add: cell_1_def dbutils_fs_cp_def)

lemma read_Inr:
  "spark_read_csv pf fs p = Inr t \<longleftrightarrow> (\<exists>c. fs p = Some (Csv c) \<and> t = from_csv pf c)"
  by (auto simp: spark_read_csv_def split: option.splits entry.splits)

lemma table_of_cell_1: "table_of pf (cell_1 fs) s = table_of pf fs s"
  by (cases s) (simp_all add: cell_4_def cell_8_def cell_12_def cell_16_def cell_20_def
      spark_read_csv_def join_storage cell_1_storage)

lemma table_of_Inr:
  "table_of pf fs s = Inr t \<longleftrightarrow>
     (\<exists>c. fs (source_path s) = Some (Csv c) \<and>
          t = (if s = Telemetry then handle_missing_values (from_csv pf c) else from_csv pf c))"
  by (cases s)
     (auto simp: cell_4_def cell_8_def cell_12_def cell_16_def cell_20_def spark_read_csv_def
           split: option.splits entry.splits)



lemma cell_24_Inr:
  "cell_24 pf m e mt t f fs = Inr fs' \<longleftrightarrow>
     (\<forall>s. \<not> write_fails pf (artifact_path s)) \<and> fs' = written m e mt t f fs"
  unfolding source_all written_def
  by (simp add: cell_24_def write_parquet_def csv_files_names_keys_def dbutils_fs_rm_def) blast

lemma cell_24_Inl:
  "cell_24 pf m e mt t f fs = Inl (er, fs') \<longleftrightarrow>
     (write_fails pf (artifact_path Machines) \<and> er = WriteFailed (artifact_path Machines)
        \<and> fs' = fs(artifact_path Machines := None))
   \<or> (\<not> write_fails pf (artifact_path Machines) \<and> write_fails pf (artifact_path Errors)
        \<and> er = WriteFailed (artifact_path Errors)
        \<and> fs' = (fs(artifact_path Machines \<mapsto> Parquet m))(artifact_path Errors := None))
   \<or> (\<not> write_fails pf (artifact_path Machines) \<and> \<not> write_fails pf (artifact_path Errors)
        \<and> write_fails pf (artifact_path Maint) \<and> er = WriteFailed (artifact_path Maint)
        \<and> fs' = (fs(artifact_path Machines \<mapsto> Parquet m, artifact_path Errors \<mapsto> Parquet e))
                   (artifact_path Maint := None))
   \<or> (\<not> write_fails pf (artifact_path Machines) \<and> \<not> write_fails pf (artifact_path Errors)
        \<and> \<not> write_fails pf (artifact_path Maint) \<and> write_fails pf (artifact_path Telemetry)
        \<and> er = WriteFailed (artifact_path Telemetry)
        \<and> fs' = (fs(artifact_path Machines \<mapsto> Parquet m, artifact_path Errors \<mapsto> Parquet e,
                      artifact_path Maint \<mapsto> Parquet mt))
                   (artifact_path Telemetry := None))
   \<or> (\<not> write_fails pf (artifact_path Machines) \<and> \<not> write_fails pf (artifact_path Errors)
        \<and> \<not> write_fails pf (artifact_path Maint) \<and> \<not> write_fails pf (artifact_path Telemetry)
        \<and> write_fails pf (artifact_path Failures) \<and> er = WriteFailed (artifact_path Failures)
        \<and> fs' = (fs(artifact_path Machines \<mapsto> Parquet m, artifact_path Errors \<mapsto> Parquet e,
                      artifact_path Maint \<mapsto> Parquet mt, artifact_path Telemetry \<mapsto> Parquet t))
                   (artifact_path Failures := None))"
  by (simp add: cell_24_def write_parquet_def) blast

lemma written_artifact:
  "written m e mt t f fs (artifact_path s) =
     Some (Parquet (case s of Machines \<Rightarrow> m | Errors \<Rightarrow> e | Maint \<Rightarrow> mt
                    | Telemetry \<Rightarrow> t | Failures \<Rightarrow> f))"
  by (cases s) (simp_all add: written_def join_target)

lemma written_copy: "written m e mt t f fs (copy_path s) = None"
  by (cases s) (simp_all add: written_def join_target)

lemma written_other:
  "(\<forall>s. p \<noteq> artifact_path s \<and> p \<noteq> copy_path s) \<Longrightarrow> written m e mt t f fs p = fs p"
  unfolding source_all by (simp add: written_def)

section \<open>The run\<close>

lemma run_success:
  "run pf fs = Inr fs' \<longleftrightarrow>
     (\<exists>m e mt t f. table_of pf fs Machines = Inr m \<and> table_of pf fs Errors = Inr e \<and>
        table_of pf fs Maint = Inr mt \<and> table_of pf fs Telemetry = Inr t \<and>
        table_of pf fs Failures = Inr f \<and> (\<forall>s. \<not> write_fails pf (artifact_path s)) \<and>
        fs' = written m e mt t f (cell_1 fs))"
  unfolding table_of_cell_1 [symmetric, of pf fs] cell_24_Inr [symmetric]
  by (auto simp: run_def Let_def split: sum.splits)

lemma run_Inl_write:
  "run pf fs = Inl (WriteFailed p, fs') \<longleftrightarrow>
     (\<exists>m e mt t f. table_of pf fs Machines = Inr m \<and> table_of pf fs Errors = Inr e \<and>
        table_of pf fs Maint = Inr mt \<and> table_of pf fs Telemetry = Inr t \<and>
        table_of pf fs Failures = Inr f \<and>
        cell_24 pf m e mt t f (cell_1 fs) = Inl (WriteFailed p, fs'))"
  unfolding table_of_cell_1 [symmetric, of pf fs]
  by (auto simp: run_def Let_def cell_4_def cell_8_def cell_12_def cell_16_def cell_20_def
        spark_read_csv_def split: sum.splits option.splits entry.splits)

lemma run_artifact:
  assumes "run pf fs = Inr fs'"
  shows "\<exists>t. table_of pf fs s = Inr t \<and> fs' (artifact_path s) = Some (Parquet t)"
proof -
  from assms obtain m e mt t f where
    h: "table_of pf fs Machines = Inr m" "table_of pf fs Errors = Inr e"
       "table_of pf fs Maint = Inr mt" "table_of pf fs Telemetry = Inr t"
       "table_of pf fs Failures = Inr f" "fs' = written m e mt t f (cell_1 fs)"
    unfolding run_success by blast
  show ?thesis
    unfolding h(6) written_artifact using h(1-5) by (cases s) simp_all
qed

lemma run_copy: "run pf fs = Inr fs' \<Longrightarrow> fs' (copy_path s) = None"
  unfolding run_success by (auto simp: written_copy)

lemma run_other:
  "run pf fs = Inr fs' \<Longrightarrow> (\<forall>s. p \<noteq> artifact_path s \<and> p \<noteq> copy_path s) \<Longrightarrow>
   fs' p = cell_1 fs p"
  unfolding run_success by (auto simp: written_other)

lemma run_succeeds:
  assumes "\<forall>s. \<exists>c. fs (source_path s) = Some (Csv c)"
    and "\<forall>s. \<not> write_fails pf (artifact_path s)"
  shows "\<exists>fs'. run pf fs = Inr fs'"
proof -
  have tb: "\<exists>t. table_of pf fs s = Inr t" for s
    using assms(1) unfolding table_of_Inr by blast
  from tb [of Machines] obtain m where m: "table_of pf fs Machines = Inr m" ..
  from tb [of Errors] obtain e where e: "table_of pf fs Errors = Inr e" ..
  from tb [of Maint] obtain mt where mt: "table_of pf fs Maint = Inr mt" ..
  from tb [of Telemetry] obtain t where t: "table_of pf fs Telemetry = Inr t" ..
  from tb [of Failures] obtain f where f: "table_of pf fs Failures = Inr f" ..
  have "run pf fs = Inr (written m e mt t f (cell_1 fs))"
    unfolding run_success using m e mt t f assms(2) by blast
  then show ?thesis by (rule exI [of _ "written m e mt t f (cell_1 fs)"])
qed

lemma succeeded_iff: "succeeded r \<longleftrightarrow> (\<exists>fs'. r = Inr fs')"
  by (cases r) (simp_all add: succeeded_def)

lemma succeeded_Inr: "succeeded r \<Longrightarrow> r = Inr (store_after r)"
  by (cases r) (simp_all add: succeeded_def store_after_def)

lemma count_from_csv: "count (from_csv pf c) = length (records c)"
  by (simp add: count_def from_csv_def Let_def)

lemma length_makeSafeHeader: "length (makeSafeHeader h) = length h"
  by (simp add: makeSafeHeader_def)

lemma length_schema_from_csv: "length (schema (from_csv pf c)) = length (header c)"
  by (simp add: from_csv_def Let_def length_makeSafeHeader)

lemma from_csv_type_nth:
  "i < length (header c) \<Longrightarrow> snd (schema (from_csv pf c) ! i) = inferColumn pf c i"
  by (simp add: from_csv_def Let_def length_makeSafeHeader)

lemma from_csv_nth:
  "r < length (records c) \<Longrightarrow> i < length (header c) \<Longrightarrow>
   rows (from_csv pf c) ! r ! i = Null
   \<or> rows (from_csv pf c) ! r ! i = castTo pf (inferColumn pf c i) (field_at (records c ! r) i)"
  by (simp add: from_csv_def Let_def castRow_def)

section \<open>The example stores\<close>

lemmas plain_defs = plain_def plain_parseInt_def plain_parseLong_def plain_parseDouble_def
  plain_parseTimestamp_def plain_parseBoolean_def plain_int_def plain_nat_def digit_def toLower_def

lemmas load_defs = from_csv_def inferColumn_def inferField_def tryParseInteger_def tryParseLong_def
  tryParseDouble_def tryParseTimestamp_def tryParseBoolean_def castTo_def castRow_def accepts_def
  makeSafeHeader_def field_at_def Let_def

lemma upt_3: "[0..<3] = [0, 1, 2]"
  by (simp add: upt_rec)

lemma upt_6: "[0..<6] = [0, 1, 2, 3, 4, 5]"
  by (simp add: upt_rec)

lemma load_machines: "from_csv plain machines_csv = machines_table"
  by (simp add: machines_csv_def machines_table_def load_defs plain_defs upt_3)

lemma load_errors: "from_csv plain errors_csv = errors_table"
  by (simp add: errors_csv_def errors_table_def load_defs plain_defs upt_3)

lemma load_maint: "from_csv plain maint_csv = maint_table"
  by (simp add: maint_csv_def maint_table_def load_defs plain_defs upt_3)

lemma load_telemetry: "from_csv plain telemetry_csv = telemetry_table"
  by (simp add: telemetry_csv_def telemetry_table_def load_defs plain_defs upt_6)

lemma load_failures: "from_csv plain failures_csv = failures_table"
  by (simp add: failures_csv_def failures_table_def load_defs plain_defs upt_3)

lemma load_errors_gap: "from_csv plain errors_csv_gap = errors_table_gap"
  by (simp add: errors_csv_gap_def errors_table_gap_def load_defs plain_defs upt_3)



lemma load_machines_text: "from_csv plain machines_csv_text = machines_table_text"
  by (simp add: machines_csv_text_def machines_table_text_def load_defs plain_defs upt_3)

lemma inferField_write_fails: "inferField (pf\<lparr>write_fails := w\<rparr>) = inferField pf"
  by (simp add: fun_eq_iff inferField_def tryParseInteger_def tryParseLong_def
        tryParseDouble_def tryParseTimestamp_def tryParseBoolean_def Let_def split: dtype.splits)

lemma castTo_write_fails: "castTo (pf\<lparr>write_fails := w\<rparr>) = castTo pf"
  by (simp add: fun_eq_iff castTo_def split: dtype.splits)

lemma accepts_write_fails: "accepts (pf\<lparr>write_fails := w\<rparr>) = accepts pf"
  by (simp add: fun_eq_iff accepts_def split: dtype.splits)

lemma inferColumn_write_fails: "inferColumn (pf\<lparr>write_fails := w\<rparr>) = inferColumn pf"
  by (simp add: fun_eq_iff inferColumn_def inferField_write_fails)

lemma castRow_write_fails: "castRow (pf\<lparr>write_fails := w\<rparr>) = castRow pf"
  by (simp add: fun_eq_iff castRow_def castTo_write_fails accepts_write_fails)

lemma from_csv_flaky: "from_csv flaky c = from_csv plain c"
  by (simp add: flaky_def from_csv_def inferColumn_write_fails castRow_write_fails)

lemma store0_at:
  "store0 (storage_path @ ''machines.csv'') = Some (Csv machines_csv)"
  "store0 (storage_path @ ''errors.csv'') = Some (Csv errors_csv)"
  "store0 (storage_path @ ''maint.csv'') = Some (Csv maint_csv)"
  "store0 (storage_path @ ''telemetry.csv'') = Some (Csv telemetry_csv)"
  "store0 (storage_path @ ''failures.csv'') = Some (Csv failures_csv)"
  by (simp_all add: store0_def storage_path_def target_dir_def)

lemma store0_sources: "\<exists>c. store0 (source_path s) = Some (Csv c)"
  by (cases s) (simp_all add: join_storage store0_at)

lemma plain_writes: "\<not> write_fails plain p"
  by (simp add: plain_def never_def)

lemma tables_store0:
  "table_of plain store0 Machines = Inr machines_table"
  "table_of plain store0 Errors = Inr errors_table"
  "table_of plain store0 Maint = Inr maint_table"
  "table_of plain store0 Telemetry = Inr telemetry_filled"
  "table_of plain store0 Failures = Inr failures_table"
  by (simp_all add: cell_4_def cell_8_def cell_12_def cell_16_def cell_20_def spark_read_csv_def
        join_storage store0_at load_machines load_errors load_maint load_telemetry load_failures
        fill_telemetry)

lemma run_store0:
  "run plain store0
   = Inr (written machines_table errors_table maint_table telemetry_filled failures_table
            (cell_1 store0))"
  unfolding run_success using tables_store0 plain_writes by blast

lemma tables_store_gap:
  "table_of plain store_gap Machines = Inr machines_table"
  "table_of plain store_gap Errors = Inr errors_table_gap"
  "table_of plain store_gap Maint = Inr maint_table"
  "table_of plain store_gap Telemetry = Inr telemetry_filled"
  "table_of plain store_gap Failures = Inr failures_table"
  by (simp_all add: cell_4_def cell_8_def cell_12_def cell_16_def cell_20_def spark_read_csv_def
        join_storage store_gap_def store0_at load_machines load_errors_gap load_maint
        load_telemetry load_failures fill_telemetry)

lemma run_store_gap:
  "run plain store_gap
   = Inr (written machines_table errors_table_gap maint_table telemetry_filled failures_table
            (cell_1 store_gap))"
  unfolding run_success using tables_store_gap plain_writes by blast








lemma artifact_literals:
  "''dbfs:/dataset/machines_files.parquet'' = artifact_path Machines"
  "''dbfs:/dataset/errors_files.parquet'' = artifact_path Errors"
  "''dbfs:/dataset/maint_files.parquet'' = artifact_path Maint"
  "''dbfs:/dataset/telemetry_files.parquet'' = artifact_path Telemetry"
  "''dbfs:/dataset/failure_files.parquet'' = artifact_path Failures"
  by (simp_all add: os_path_join_def target_dir_def)

lemma written_at:
  "written m e mt t f fs ''dbfs:/dataset/machines_files.parquet'' = Some (Parquet m)"
  "written m e mt t f fs ''dbfs:/dataset/errors_files.parquet'' = Some (Parquet e)"
  "written m e mt t f fs ''dbfs:/dataset/maint_files.parquet'' = Some (Parquet mt)"
  "written m e mt t f fs ''dbfs:/dataset/telemetry_files.parquet'' = Some (Parquet t)"
  "written m e mt t f fs ''dbfs:/dataset/failure_files.parquet'' = Some (Parquet f)"
  "written m e mt t f fs ''dbfs:/dataset/machines.csv'' = None"
  "written m e mt t f fs ''dbfs:/dataset/telemetry.csv'' = None"
  by (simp_all add: written_def os_path_join_def target_dir_def)

section \<open>What is persisted\<close>

text \<open>
  C9. In every successful run, the machines, errors, maint and failures artifacts are the
  tables exactly as the reader loaded them, and the telemetry artifact is the loaded table
  after the handling of missing values: no other table has a missing value replaced.
\<close>

theorem only_telemetry_is_imputed:
  assumes "run pf fs = Inr fs'"
  shows "(\<forall>s. s \<noteq> Telemetry \<longrightarrow>
            (\<exists>t. spark_read_csv pf fs (source_path s) = Inr t
                \<and> fs' (artifact_path s) = Some (Parquet t)))
       \<and> (\<exists>t. spark_read_csv pf fs (source_path Telemetry) = Inr t
                \<and> fs' (artifact_path Telemetry) = Some (Parquet (handle_missing_values t)))"
proof (intro conjI allI impI)
  fix s :: source assume "s \<noteq> Telemetry"
  with run_artifact [OF assms, of s]
  show "\<exists>t. spark_read_csv pf fs (source_path s) = Inr t
            \<and> fs' (artifact_path s) = Some (Parquet t)"
    by (auto simp: table_of_Inr read_Inr simp del: table_of.simps)
next
  from run_artifact [OF assms, of Telemetry]
  show "\<exists>t. spark_read_csv pf fs (source_path Telemetry) = Inr t
            \<and> fs' (artifact_path Telemetry) = Some (Parquet (handle_missing_values t))"
    by (auto simp: table_of_Inr read_Inr simp del: table_of.simps)
qed

theorem only_telemetry_is_imputed_witness:
  "run plain store_gap = Inr (store_after (run plain store_gap))
   \<and> store_after (run plain store_gap) (artifact_path Errors) = Some (Parquet errors_table_gap)
   \<and> rows errors_table_gap ! 1 ! 2 = Null
   \<and> store_after (run plain store_gap) (artifact_path Telemetry)
       = Some (Parquet (handle_missing_values telemetry_table))"
proof -
  have r: "run plain store_gap = Inr (store_after (run plain store_gap))"
    by (simp add: run_store_gap store_after_def)
  have e: "spark_read_csv plain store_gap (source_path Errors) = Inr errors_table_gap"
    and t: "spark_read_csv plain store_gap (source_path Telemetry) = Inr telemetry_table"
    by (simp_all add: spark_read_csv_def join_storage store_gap_def store0_at load_errors_gap
          load_telemetry)
  note a = only_telemetry_is_imputed [OF r]
  show ?thesis
    using a [THEN conjunct1, THEN spec, of Errors] a [THEN conjunct2] r e t
    by (auto simp: errors_table_gap_def)
qed

text \<open>
  C8. Every successful run leaves five artifacts, one for each source, at the path that
  \<^verbatim>\<open>parquet_files_names\<close> gives the source below the target directory; the five paths
  differ; each artifact has as many rows as the table the notebook holds for its source
  after the handling of missing values, which is the number of records of the source; and
  apart from these five paths and the five copied CSV files, the target is as cell 1 left
  it.
\<close>

theorem five_artifacts_with_source_row_counts:
  assumes "run pf fs = Inr fs'"
  shows "(\<forall>s. \<exists>t c. table_of pf fs s = Inr t \<and> fs (source_path s) = Some (Csv c)
              \<and> artifact_count fs' (artifact_path s) = Some (count t)
              \<and> count t = length (records c))
       \<and> card (range artifact_path) = 5
       \<and> (\<forall>p. p \<notin> range artifact_path \<and> p \<notin> range copy_path \<longrightarrow> fs' p = cell_1 fs p)"
proof (intro conjI allI impI)
  fix s
  from run_artifact [OF assms, of s] obtain t where
    t: "table_of pf fs s = Inr t" "fs' (artifact_path s) = Some (Parquet t)" by blast
  from t(1) obtain c where c: "fs (source_path s) = Some (Csv c)"
    and tc: "t = (if s = Telemetry then handle_missing_values (from_csv pf c) else from_csv pf c)"
    unfolding table_of_Inr by blast
  have "count t = length (records c)"
    by (simp add: tc count_handle_missing_values count_from_csv)
  with t c show "\<exists>t c. table_of pf fs s = Inr t \<and> fs (source_path s) = Some (Csv c)
              \<and> artifact_count fs' (artifact_path s) = Some (count t)
              \<and> count t = length (records c)"
    by (auto simp: artifact_count_def)
next
  show "card (range artifact_path) = 5" by (rule card_artifact_paths)
next
  fix p assume "p \<notin> range artifact_path \<and> p \<notin> range copy_path"
  then have "\<forall>s. p \<noteq> artifact_path s \<and> p \<noteq> copy_path s" by auto
  with run_other [OF assms] show "fs' p = cell_1 fs p" by blast
qed

theorem five_artifacts_with_source_row_counts_witness:
  "run plain store0 = Inr (store_after (run plain store0))
   \<and> length (records machines_csv) = 3
   \<and> artifact_count (store_after (run plain store0)) (artifact_path Machines) = Some 3
   \<and> length (records telemetry_csv) = 3
   \<and> artifact_count (store_after (run plain store0)) (artifact_path Telemetry) = Some 3
   \<and> store_after (run plain store0) (source_path Machines) = Some (Csv machines_csv)"
proof -
  have r: "run plain store0 = Inr (store_after (run plain store0))"
    by (simp add: run_store0 store_after_def)
  have c: "count machines_table = 3" "count telemetry_filled = 3"
    by (simp_all add: count_def machines_table_def telemetry_filled_def)
  have p: "source_path Machines \<notin> range artifact_path \<and> source_path Machines \<notin> range copy_path"
    by (simp add: UNIV_source os_path_join_def target_dir_def storage_path_def)
  have s: "cell_1 store0 (source_path Machines) = Some (Csv machines_csv)"
    by (simp add: join_storage cell_1_storage store0_at)
  note t = five_artifacts_with_source_row_counts [OF r]
  note a = t [THEN conjunct1, THEN spec]
  note b = t [THEN conjunct2, THEN conjunct2, THEN spec, THEN mp, OF p]
  show ?thesis
    using a [of Machines] a [of Telemetry] b r c s tables_store0
    by (auto simp: telemetry_csv_def machines_csv_def simp del: table_of.simps)
qed

section \<open>Failures\<close>

lemma artifact_path_inj: "artifact_path s = artifact_path s' \<longleftrightarrow> s = s'"
  by (cases s; cases s') (simp_all add: join_target)

lemma tables_flaky:
  "table_of flaky store0 Machines = Inr machines_table"
  "table_of flaky store0 Errors = Inr errors_table"
  "table_of flaky store0 Maint = Inr maint_table"
  "table_of flaky store0 Telemetry = Inr telemetry_filled"
  "table_of flaky store0 Failures = Inr failures_table"
  by (simp_all add: cell_4_def cell_8_def cell_12_def cell_16_def cell_20_def spark_read_csv_def
        join_storage store0_at from_csv_flaky load_machines load_errors load_maint
        load_telemetry load_failures fill_telemetry)

lemma flaky_writes:
  "\<not> write_fails flaky (artifact_path Machines)"
  "\<not> write_fails flaky (artifact_path Errors)"
  "write_fails flaky (artifact_path Maint)"
  by (simp_all add: flaky_def maint_write_fails_def os_path_join_def target_dir_def)

lemma run_flaky:
  "run flaky store0
   = Inl (WriteFailed (artifact_path Maint),
          ((cell_1 store0)(artifact_path Machines \<mapsto> Parquet machines_table,
                           artifact_path Errors \<mapsto> Parquet errors_table))
            (artifact_path Maint := None))"
  unfolding run_Inl_write cell_24_Inl using tables_flaky flaky_writes by blast

lemma cell_1_store0_artifacts:
  "cell_1 store0 (artifact_path Telemetry) = Some (Parquet old_table)"
  "cell_1 store0 (artifact_path Failures) = Some (Parquet old_table)"
  by (simp_all add: cell_1_def dbutils_fs_cp_def store0_def os_path_join_def target_dir_def
        storage_path_def)

text \<open>
  C7, as amended. Cell 24 writes the five artifacts one after another, in the order
  machines, errors, maint, telemetry, failures, and stops at the first write that fails.
  A run that ends with a failed write has failed at one of the five artifact paths; the
  artifacts of the sources written before it hold this run's tables, and the artifact paths
  of the sources after it are as cell 1 left them.
\<close>

theorem failed_write_leaves_earlier_artifacts_replaced:
  assumes "run pf fs = Inl (WriteFailed p, fs')"
  shows "\<exists>s. p = artifact_path s \<and> write_fails pf p
     \<and> (\<forall>s'. (write_position s' < write_position s \<longrightarrow>
                 (\<exists>t. table_of pf fs s' = Inr t \<and> fs' (artifact_path s') = Some (Parquet t)))
            \<and> (write_position s < write_position s' \<longrightarrow>
                 fs' (artifact_path s') = cell_1 fs (artifact_path s')))"
proof -
  from assms obtain m e mt t f where
    tb: "table_of pf fs Machines = Inr m" "table_of pf fs Errors = Inr e"
        "table_of pf fs Maint = Inr mt" "table_of pf fs Telemetry = Inr t"
        "table_of pf fs Failures = Inr f"
    and w: "cell_24 pf m e mt t f (cell_1 fs) = Inl (WriteFailed p, fs')"
    unfolding run_Inl_write by blast
  from w [unfolded cell_24_Inl] consider
      (a) "write_fails pf p" "p = artifact_path Machines"
          "fs' = (cell_1 fs)(artifact_path Machines := None)"
    | (b) "write_fails pf p" "p = artifact_path Errors"
          "fs' = ((cell_1 fs)(artifact_path Machines \<mapsto> Parquet m))(artifact_path Errors := None)"
    | (c) "write_fails pf p" "p = artifact_path Maint"
          "fs' = ((cell_1 fs)(artifact_path Machines \<mapsto> Parquet m,
                             artifact_path Errors \<mapsto> Parquet e))
                   (artifact_path Maint := None)"
    | (d) "write_fails pf p" "p = artifact_path Telemetry"
          "fs' = ((cell_1 fs)(artifact_path Machines \<mapsto> Parquet m,
                             artifact_path Errors \<mapsto> Parquet e,
                             artifact_path Maint \<mapsto> Parquet mt))
                   (artifact_path Telemetry := None)"
    | (e) "write_fails pf p" "p = artifact_path Failures"
          "fs' = ((cell_1 fs)(artifact_path Machines \<mapsto> Parquet m,
                             artifact_path Errors \<mapsto> Parquet e,
                             artifact_path Maint \<mapsto> Parquet mt,
                             artifact_path Telemetry \<mapsto> Parquet t))
                   (artifact_path Failures := None)"
    by auto
  then show ?thesis
  proof cases
    case a
    show ?thesis
      using tb a(1) unfolding a(2,3)
      by (intro exI [of _ Machines]) (simp add: source_all join_target)
  next
    case b
    show ?thesis
      using tb b(1) unfolding b(2,3)
      by (intro exI [of _ Errors]) (simp add: source_all join_target)
  next
    case c
    show ?thesis
      using tb c(1) unfolding c(2,3)
      by (intro exI [of _ Maint]) (simp add: source_all join_target)
  next
    case d
    show ?thesis
      using tb d(1) unfolding d(2,3)
      by (intro exI [of _ Telemetry]) (simp add: source_all join_target)
  next
    case e
    show ?thesis
      using tb e(1) unfolding e(2,3)
      by (intro exI [of _ Failures]) (simp add: source_all join_target)
  qed
qed

theorem failed_write_leaves_earlier_artifacts_replaced_witness:
  "run flaky store0 = Inl (WriteFailed (artifact_path Maint), store_after (run flaky store0))
   \<and> store_after (run flaky store0) (artifact_path Machines) = Some (Parquet machines_table)
   \<and> store_after (run flaky store0) (artifact_path Telemetry) = Some (Parquet old_table)"
proof -
  have r: "run flaky store0
             = Inl (WriteFailed (artifact_path Maint), store_after (run flaky store0))"
    by (simp add: run_flaky store_after_def)
  from failed_write_leaves_earlier_artifacts_replaced [OF r] obtain s where
    s: "artifact_path Maint = artifact_path s"
    and a: "\<And>s'. write_position s' < write_position s \<Longrightarrow>
              \<exists>t. table_of flaky store0 s' = Inr t
                \<and> store_after (run flaky store0) (artifact_path s') = Some (Parquet t)"
    and b: "\<And>s'. write_position s < write_position s' \<Longrightarrow>
              store_after (run flaky store0) (artifact_path s')
                = cell_1 store0 (artifact_path s')"
    by blast
  from s have s': "s = Maint"
    by (simp only: artifact_path_inj)
  show ?thesis
    using r a [of Machines] b [of Telemetry] tables_flaky cell_1_store0_artifacts
    unfolding s' by (auto simp del: table_of.simps)
qed

text \<open>
  C7 fails as stated: when the write of the maintenance artifact fails, the machines
  artifact of the earlier run is already replaced by this run's table, while the telemetry
  artifact is still the earlier one.
\<close>

theorem partial_overwrite_counterexample:
  "\<not> succeeded (run flaky store0)
   \<and> store0 ''dbfs:/dataset/machines_files.parquet'' = Some (Parquet old_table)
   \<and> store_after (run flaky store0) ''dbfs:/dataset/machines_files.parquet''
       = Some (Parquet machines_table)
   \<and> machines_table \<noteq> old_table
   \<and> store_after (run flaky store0) ''dbfs:/dataset/telemetry_files.parquet''
       = Some (Parquet old_table)"
proof -
  have "store0 ''dbfs:/dataset/machines_files.parquet'' = Some (Parquet old_table)"
    by (simp add: store0_def target_dir_def storage_path_def)
  moreover have "machines_table \<noteq> old_table"
    by (simp add: machines_table_def old_table_def)
  moreover have "cell_1 store0 ''dbfs:/dataset/telemetry_files.parquet'' = Some (Parquet old_table)"
    by (simp add: cell_1_def dbutils_fs_cp_def store0_def target_dir_def storage_path_def)
  ultimately show ?thesis
    by (simp add: run_flaky succeeded_def store_after_def os_path_join_def target_dir_def)
qed

section \<open>The copies of the sources\<close>

lemma copy_path_no_artifact: "copy_path s \<noteq> artifact_path s'"
  by (cases s; cases s') (simp_all add: join_target)

lemma run_Inl:
  "run pf fs = Inl (e, fs') \<Longrightarrow>
   fs' = cell_1 fs \<or> (\<exists>m er mt t f. cell_24 pf m er mt t f (cell_1 fs) = Inl (e, fs'))"
  by (auto simp: run_def Let_def split: sum.splits)

lemma cell_24_Inl_other:
  assumes "cell_24 pf m e mt t f fs = Inl (er, fs')" and "\<forall>s. p \<noteq> artifact_path s"
  shows "fs' p = fs p"
  using assms unfolding cell_24_Inl source_all by auto

lemma run_Inl_other:
  assumes "run pf fs = Inl (e, fs')" and "\<forall>s. p \<noteq> artifact_path s"
  shows "fs' p = cell_1 fs p"
  using run_Inl [OF assms(1)] cell_24_Inl_other [OF _ assms(2)] by auto

text \<open>
  C10. Cell 1 copies every file below the storage path to the same relative name below
  the target directory, and the run goes on from the store that cell 1 leaves. A run that
  fails leaves that store, changed at artifact paths at most; where it fails at a write,
  the copies of the five sources are in the target directory. A run that succeeds leaves
  that store with the five artifacts written and the five copies removed, and nothing
  else changed.
\<close>

theorem csv_copies_are_made_and_removed:
  "(\<forall>rel f. fs (storage_path @ rel) = Some f \<longrightarrow> cell_1 fs (target_dir @ rel) = Some f)
   \<and> (run pf fs = Inr fs' \<longrightarrow>
        (\<forall>s. fs (source_path s) \<noteq> None \<and> cell_1 fs (copy_path s) = fs (source_path s)
            \<and> fs' (copy_path s) = None
            \<and> (\<exists>t. fs' (artifact_path s) = Some (Parquet t)))
        \<and> (\<forall>p. p \<notin> range artifact_path \<and> p \<notin> range copy_path \<longrightarrow> fs' p = cell_1 fs p))
   \<and> (run pf fs = Inl (e, fs') \<longrightarrow> (\<forall>p. p \<notin> range artifact_path \<longrightarrow> fs' p = cell_1 fs p))
   \<and> (run pf fs = Inl (WriteFailed q, fs') \<longrightarrow>
        (\<forall>s. fs (source_path s) \<noteq> None \<and> fs' (copy_path s) = fs (source_path s)))"
proof (intro conjI allI impI)
  fix rel f assume "fs (storage_path @ rel) = Some f"
  then show "cell_1 fs (target_dir @ rel) = Some f" by (rule cell_1_copy)
next
  fix s assume r: "run pf fs = Inr fs'"
  from run_artifact [OF r, of s] obtain t where
    t: "table_of pf fs s = Inr t" "fs' (artifact_path s) = Some (Parquet t)" by blast
  from t(1) obtain c where c: "fs (source_path s) = Some (Csv c)"
    unfolding table_of_Inr by blast
  then show "fs (source_path s) \<noteq> None" by simp
  from c have "fs (storage_path @ csv_files_names s) = Some (Csv c)"
    by (simp add: source_path_eq)
  then have "cell_1 fs (target_dir @ csv_files_names s) = Some (Csv c)" by (rule cell_1_copy)
  with c show "cell_1 fs (copy_path s) = fs (source_path s)" by (simp add: copy_path_eq)
  show "fs' (copy_path s) = None" by (rule run_copy [OF r])
  from t(2) show "\<exists>t. fs' (artifact_path s) = Some (Parquet t)" by blast
next
  fix p assume r: "run pf fs = Inr fs'"
    and "p \<notin> range artifact_path \<and> p \<notin> range copy_path"
  then have "\<forall>s. p \<noteq> artifact_path s \<and> p \<noteq> copy_path s" by auto
  with run_other [OF r] show "fs' p = cell_1 fs p" by blast
next
  fix p assume r: "run pf fs = Inl (e, fs')" and "p \<notin> range artifact_path"
  then have "\<forall>s. p \<noteq> artifact_path s" by auto
  with run_Inl_other [OF r] show "fs' p = cell_1 fs p" by blast
next
  fix s assume r: "run pf fs = Inl (WriteFailed q, fs')"
  then obtain t where "table_of pf fs s = Inr t"
    unfolding run_Inl_write by (cases s) auto
  then obtain c where c: "fs (source_path s) = Some (Csv c)"
    unfolding table_of_Inr by blast
  then show "fs (source_path s) \<noteq> None" by simp
  from c have "fs (storage_path @ csv_files_names s) = Some (Csv c)"
    by (simp add: source_path_eq)
  then have "cell_1 fs (target_dir @ csv_files_names s) = Some (Csv c)" by (rule cell_1_copy)
  with c have "cell_1 fs (copy_path s) = fs (source_path s)" by (simp add: copy_path_eq)
  moreover have "fs' (copy_path s) = cell_1 fs (copy_path s)"
    by (rule run_Inl_other [OF r]) (simp add: copy_path_no_artifact)
  ultimately show "fs' (copy_path s) = fs (source_path s)" by simp
qed

theorem csv_copies_are_made_and_removed_witness:
  "run plain store0 = Inr (store_after (run plain store0))
   \<and> store0 (target_dir @ ''telemetry.csv'') = None
   \<and> cell_1 store0 (target_dir @ ''telemetry.csv'') = Some (Csv telemetry_csv)
   \<and> cell_1 store0 (copy_path Telemetry) = Some (Csv telemetry_csv)
   \<and> store_after (run plain store0) (copy_path Telemetry) = None
   \<and> store_after (run plain store0) (artifact_path Telemetry) \<noteq> None
   \<and> store_after (run plain store0) (source_path Machines) = Some (Csv machines_csv)
   \<and> run flaky store0 = Inl (WriteFailed (artifact_path Maint), store_after (run flaky store0))
   \<and> store_after (run flaky store0) (source_path Machines) = Some (Csv machines_csv)
   \<and> store_after (run flaky store0) (copy_path Telemetry) = Some (Csv telemetry_csv)"
proof -
  have r: "run plain store0 = Inr (store_after (run plain store0))"
    by (simp add: run_store0 store_after_def)
  have w: "run flaky store0
             = Inl (WriteFailed (artifact_path Maint), store_after (run flaky store0))"
    by (simp add: run_flaky store_after_def)
  have s: "store0 (source_path Telemetry) = Some (Csv telemetry_csv)"
    by (simp add: join_storage store0_at)
  have n: "store0 (target_dir @ ''telemetry.csv'') = None"
    by (simp add: store0_def target_dir_def storage_path_def)
  have p: "source_path Machines \<notin> range artifact_path \<and> source_path Machines \<notin> range copy_path"
    by (simp add: UNIV_source os_path_join_def target_dir_def storage_path_def)
  have m: "cell_1 store0 (source_path Machines) = Some (Csv machines_csv)"
    by (simp add: join_storage cell_1_storage store0_at)
  note t = csv_copies_are_made_and_removed
    [where fs = store0 and pf = plain and fs' = "store_after (run plain store0)"]
  note u = csv_copies_are_made_and_removed
    [where fs = store0 and pf = flaky and fs' = "store_after (run flaky store0)"
       and e = "WriteFailed (artifact_path Maint)" and q = "artifact_path Maint"]
  note a = t [THEN conjunct1, THEN spec, THEN spec, THEN mp, OF store0_at(4)]
  note b = t [THEN conjunct2, THEN conjunct1, THEN mp, OF r]
  note c = u [THEN conjunct2, THEN conjunct2, THEN conjunct1, THEN mp, OF w, THEN spec, THEN mp,
              OF p [THEN conjunct1]]
  note d = u [THEN conjunct2, THEN conjunct2, THEN conjunct2, THEN mp, OF w, THEN spec]
  show ?thesis
    using a b [THEN conjunct1, THEN spec, of Telemetry]
      b [THEN conjunct2, THEN spec, THEN mp, OF p] c d [of Telemetry] r w s n m
    by auto
qed

section \<open>Checks that the notebook does not make\<close>


text \<open>
  C1 fails as stated: only the telemetry table has missing values replaced. An error log
  with a record whose error class is missing is persisted with the class still missing.
\<close>

theorem missing_error_class_persisted_counterexample:
  "succeeded (run plain store_gap)
   \<and> store_after (run plain store_gap) ''dbfs:/dataset/errors_files.parquet''
       = Some (Parquet errors_table_gap)
   \<and> schema errors_table_gap ! 2 = (''errorID'', StringType)
   \<and> rows errors_table_gap ! 1 ! 2 = Null"
  by (simp add: run_store_gap succeeded_def store_after_def written_at errors_table_gap_def)







lemma inferField_unparsable: "unparsable pf x \<Longrightarrow> inferField pf t x = StringType"
  by (cases t)
     (simp_all add: unparsable_def inferField_def tryParseInteger_def tryParseLong_def
        tryParseDouble_def tryParseTimestamp_def tryParseBoolean_def compatibleType_def
        isNumeric_def Let_def)

lemma inferField_StringType: "inferField pf StringType x = StringType"
  by (simp add: inferField_def compatibleType_def Let_def)

lemma foldl_inferField_StringType: "foldl (inferField pf) StringType xs = StringType"
  by (induction xs) (simp_all add: inferField_StringType)

lemma foldl_inferField_unparsable:
  "x \<in> set xs \<Longrightarrow> unparsable pf x \<Longrightarrow> foldl (inferField pf) t xs = StringType"
proof (induction xs arbitrary: t)
  case Nil
  then show ?case by simp
next
  case (Cons y ys)
  show ?case
  proof (cases "x = y")
    case True
    with Cons.prems show ?thesis
      by (simp add: inferField_unparsable foldl_inferField_StringType)
  next
    case False
    with Cons show ?thesis by simp
  qed
qed

lemma inferColumn_unparsable:
  assumes "r < length (records c)" and "records c ! r \<noteq> header c"
    and "unparsable pf (field_at (records c ! r) i)"
  shows "inferColumn pf c i = StringType"
proof -
  have "records c ! r \<in> set (filter (\<lambda>r. r \<noteq> header c) (records c))"
    using assms(1,2) by simp
  then have "field_at (records c ! r) i
      \<in> set (map (\<lambda>r. field_at r i) (filter (\<lambda>r. r \<noteq> header c) (records c)))"
    by auto
  from foldl_inferField_unparsable [OF this assms(3)]
  show ?thesis by (simp add: inferColumn_def)
qed

text \<open>
  C6, as amended. The reader is given no schema to conform to, and a column that does
  not hold what was meant for it is loaded all the same: where a record that does not
  repeat the header line has, in some column, a field that no parser of the platform
  accepts (a text in a column meant for numbers), the file loads without an error, the
  table has one column for each name of the header, and that column is a string column,
  each of whose cells is null or holds the text of its field.
\<close>

theorem unparsable_field_makes_string_column:
  assumes "fs p = Some (Csv c)" and "r < length (records c)" and "records c ! r \<noteq> header c"
    and "i < length (header c)" and "unparsable pf (field_at (records c ! r) i)"
  shows "\<exists>t. spark_read_csv pf fs p = Inr t \<and> length (schema t) = length (header c)
     \<and> snd (schema t ! i) = StringType
     \<and> (\<forall>r' < length (records c).
           rows t ! r' ! i = Null \<or> rows t ! r' ! i = StrV (field_at (records c ! r') i))"
proof -
  have s: "inferColumn pf c i = StringType"
    by (rule inferColumn_unparsable [OF assms(2,3,5)])
  have "spark_read_csv pf fs p = Inr (from_csv pf c)"
    using assms(1) by (simp add: spark_read_csv_def)
  moreover have "length (schema (from_csv pf c)) = length (header c)"
    by (rule length_schema_from_csv)
  moreover have "snd (schema (from_csv pf c) ! i) = StringType"
    using assms(4) s by (simp add: from_csv_type_nth)
  moreover have "\<forall>r' < length (records c).
      rows (from_csv pf c) ! r' ! i = Null
      \<or> rows (from_csv pf c) ! r' ! i = StrV (field_at (records c ! r') i)"
  proof (intro allI impI)
    fix r' assume "r' < length (records c)"
    from from_csv_nth [OF this assms(4), of pf]
    show "rows (from_csv pf c) ! r' ! i = Null
      \<or> rows (from_csv pf c) ! r' ! i = StrV (field_at (records c ! r') i)"
      by (auto simp: s castTo_def split: if_splits)
  qed
  ultimately show ?thesis by blast
qed

theorem unparsable_field_makes_string_column_witness:
  "store_text (source_path Machines) = Some (Csv machines_csv_text)
   \<and> records machines_csv_text ! 1 \<noteq> header machines_csv_text
   \<and> field_at (records machines_csv_text ! 1) 2 = ''seven''
   \<and> unparsable plain ''seven''
   \<and> spark_read_csv plain store_text (source_path Machines) = Inr machines_table_text
   \<and> length (schema machines_table_text) = 3
   \<and> snd (schema machines_table_text ! 2) = StringType
   \<and> rows machines_table_text ! 1 ! 2 = StrV ''seven''"
proof -
  have a: "store_text (source_path Machines) = Some (Csv machines_csv_text)"
    by (simp add: join_storage store_text_def)
  have u: "unparsable plain ''seven''"
    by (simp add: unparsable_def plain_defs)
  have b: "1 < length (records machines_csv_text)"
    "records machines_csv_text ! 1 \<noteq> header machines_csv_text"
    "2 < length (header machines_csv_text)"
    and f: "field_at (records machines_csv_text ! 1) 2 = ''seven''"
    by (simp_all add: machines_csv_text_def field_at_def)
  have l: "spark_read_csv plain store_text (source_path Machines) = Inr machines_table_text"
    using a by (simp add: spark_read_csv_def load_machines_text)
  from u f have u': "unparsable plain (field_at (records machines_csv_text ! 1) 2)" by simp
  from unparsable_field_makes_string_column
    [where fs = store_text and p = "source_path Machines" and c = machines_csv_text
       and r = 1 and i = 2 and pf = plain, OF a b u'] l
  have "length (schema machines_table_text) = length (header machines_csv_text)"
    "snd (schema machines_table_text ! 2) = StringType"
    "rows machines_table_text ! 1 ! 2 = Null
     \<or> rows machines_table_text ! 1 ! 2 = StrV (field_at (records machines_csv_text ! 1) 2)"
    using b(1) by auto
  moreover have "rows machines_table_text ! 1 ! 2 \<noteq> Null"
    by (simp add: machines_table_text_def)
  ultimately show ?thesis
    using a b(2) f u l by (simp add: machines_csv_text_def)
qed

text \<open>
  C6 fails as stated: a machine table whose age column holds the text \<^verbatim>\<open>seven\<close> is
  loaded without an error, with the age column as a string column.
\<close>

theorem text_in_numeric_column_counterexample:
  "cell_4 plain store_text = Inr machines_table_text
   \<and> schema machines_table_text ! 2 = (''age'', StringType)
   \<and> rows machines_table_text ! 0 ! 2 = StrV ''18''
   \<and> rows machines_table_text ! 1 ! 2 = StrV ''seven''"
  by (simp add: cell_4_def spark_read_csv_def join_storage store_text_def load_machines_text
        machines_table_text_def)

end
